theory Spec2Isabelle
  imports Complex_Main
begin

section \<open>The gauge value engine of main.py\<close>

text \<open>
  Python floats are modelled as the reals: every arithmetic operation is exact, and the
  special values (NaN, infinities) do not occur. Python's unbounded ints are \<open>int\<close>.
  Console output (\<open>print\<close>) is not part of the model.
\<close>

subsection \<open>Value mapper\<close>

text \<open>
  \<open>round\<close> of Python 3 on a float rounds to the nearest integer, a tie going to the even
  neighbour; \<open>int(round(x))\<close> is that integer.
\<close>

definition py_round :: "real \<Rightarrow> int" where
  "py_round x =
     (let f = \<lfloor>x\<rfloor>; d = x - of_int f
      in if d < 1 / 2 then f
         else if 1 / 2 < d then f + 1
         else if even f then f else f + 1)"

definition clamp100 :: "real \<Rightarrow> int" where
  "clamp100 x = max 0 (min 100 (py_round x))"

definition lerp :: "real \<Rightarrow> real \<Rightarrow> real \<Rightarrow> real" where
  "lerp a b t = a + (b - a) * t"

datatype py_error = IndexError

text \<open>
  The loop of \<open>piecewise_linear\<close> over \<open>zip(points, points[1:])\<close>: the first segment
  that contains \<open>x\<close> decides; \<open>None\<close> when the loop ends without a return.
\<close>

fun segment_scan :: "real \<Rightarrow> (real \<times> real) list \<Rightarrow> real option" where
  "segment_scan x ((x0, y0) # (x1, y1) # ps) =
     (if x0 \<le> x \<and> x \<le> x1
      then Some (lerp y0 y1 (if x1 \<noteq> x0 then (x - x0) / (x1 - x0) else 0))
      else segment_scan x ((x1, y1) # ps))"
| "segment_scan x [p] = None"
| "segment_scan x [] = None"

text \<open>
  \<open>sorted(points, key=lambda p: p[0])\<close> is a stable sort on the first component, as
  \<open>sort_key fst\<close> is. \<open>points[0]\<close> on an empty list raises IndexError.
\<close>

definition piecewise_linear :: "real \<Rightarrow> (real \<times> real) list \<Rightarrow> py_error + real" where
  "piecewise_linear x points =
     (let ps = sort_key fst points
      in if ps = [] then Inl IndexError
         else if x \<le> fst (hd ps) then Inr (snd (hd ps))
         else if fst (last ps) \<le> x then Inr (snd (last ps))
         else (case segment_scan x ps of
                 Some y \<Rightarrow> Inr y
               | None \<Rightarrow> Inr (snd (last ps))))"

subsection \<open>Weather classifier\<close>

definition wmo_to_kind :: "int \<Rightarrow> real \<Rightarrow> string" where
  "wmo_to_kind wcode wind_mph =
     (let kind0 =
            (if wcode = 0 then ''sunny''
             else if wcode \<in> set [1, 2, 3, 45, 48] then ''cloudy''
             else if wcode \<in> set [95, 96, 99] then ''thunder''
             else if wcode \<in> set [71, 73, 75, 77, 85, 86] then ''snow''
             else if wcode \<in> set [51, 53, 55, 56, 57, 61, 63, 65, 66, 67, 80, 81, 82]
               then ''rain''
             else ''cloudy'');
          kind1 = (if 20 \<le> wind_mph \<and> kind0 \<notin> set [''thunder''] then ''wind'' else kind0);
          kind2 = (if wcode \<in> set [96, 99] then ''severe'' else kind1)
      in kind2)"

text \<open>
  The classifier as the specification words it: the base category by the priority order
  thunder, snow, rain, clear, generic cloud, anything else cloudy; then the wind override;
  then the severe override. The code sets are those of the source.
\<close>

definition base_kind_spec :: "int \<Rightarrow> string" where
  "base_kind_spec wcode =
     (if wcode \<in> set [95, 96, 99] then ''thunder''
      else if wcode \<in> set [71, 73, 75, 77, 85, 86] then ''snow''
      else if wcode \<in> set [51, 53, 55, 56, 57, 61, 63, 65, 66, 67, 80, 81, 82] then ''rain''
      else if wcode = 0 then ''sunny''
      else if wcode \<in> set [1, 2, 3, 45, 48] then ''cloudy''
      else ''cloudy'')"

definition wind_override_spec :: "real \<Rightarrow> string \<Rightarrow> string" where
  "wind_override_spec wind_mph kind =
     (if 20 \<le> wind_mph \<and> kind \<noteq> ''thunder'' then ''wind'' else kind)"

definition severe_override_spec :: "int \<Rightarrow> string \<Rightarrow> string" where
  "severe_override_spec wcode kind = (if wcode = 96 \<or> wcode = 99 then ''severe'' else kind)"

definition wmo_to_kind_spec :: "int \<Rightarrow> real \<Rightarrow> string" where
  "wmo_to_kind_spec wcode wind_mph =
     severe_override_spec wcode (wind_override_spec wind_mph (base_kind_spec wcode))"

definition WEATHER_TICKS :: "(string \<times> int) list" where
  "WEATHER_TICKS =
     [(''sunny'', 95), (''cloudy'', 75), (''rain'', 57), (''thunder'', 45),
      (''snow'', 30), (''wind'', 20), (''severe'', 10)]"

definition weather_value :: "string \<Rightarrow> int" where
  "weather_value kind =
     clamp100 (of_int (case map_of WEATHER_TICKS kind of Some v \<Rightarrow> v | None \<Rightarrow> 75))"

subsection \<open>Scoring functions\<close>

definition temp_value :: "real \<Rightarrow> int" where
  "temp_value temp_f = clamp100 (100 - temp_f)"

text \<open>
  \<open>water_value\<close> reads the clock itself (\<open>time.time()\<close>); the reading is the
  first argument here.
\<close>

definition water_value :: "real \<Rightarrow> real \<Rightarrow> py_error + int" where
  "water_value clock last_water_ts =
     (let hours = (clock - last_water_ts) / 3600
      in if 4 \<le> hours then Inr 5
         else (case piecewise_linear hours [(0, 95), (1, 70), (2, 52), (3, 25), (4, 5)] of
                 Inl e \<Rightarrow> Inl e
               | Inr y \<Rightarrow> Inr (clamp100 y)))"

definition stand_value :: "real \<Rightarrow> real \<Rightarrow> py_error + int" where
  "stand_value stand_ms total_ms =
     (if total_ms \<le> 0 then Inr 100
      else (let pct = (stand_ms / total_ms) * 100;
                pct = max 0 (min 40 pct)
            in case piecewise_linear pct [(0, 100), (25, 50), (40, 10)] of
                 Inl e \<Rightarrow> Inl e
               | Inr y \<Rightarrow> Inr (clamp100 y)))"

definition event_value :: "real \<Rightarrow> py_error + int" where
  "event_value seconds_left =
     (let h = seconds_left / 3600
      in if h \<le> 0 then Inr 30
         else if 12 \<le> h then Inr 90
         else (case piecewise_linear h [(0, 30), (6, 70), (8, 80), (10, 85), (12, 90)] of
                 Inl e \<Rightarrow> Inl e
               | Inr y \<Rightarrow> Inr (clamp100 y)))"

definition commute_value :: "real \<Rightarrow> py_error + int" where
  "commute_value minutes =
     (let minutes = max 12 (min 45 minutes)
      in case piecewise_linear minutes [(12, 100), (18, 65), (45, 30)] of
           Inl e \<Rightarrow> Inl e
         | Inr y \<Rightarrow> Inr (clamp100 y))"

subsection \<open>Frame encoding\<close>

text \<open>\<open>str\<close> of a Python int: its decimal digits, with a minus sign when negative.\<close>

definition digit_char :: "nat \<Rightarrow> char" where
  "digit_char d = char_of (48 + d)"

fun str_nat :: "nat \<Rightarrow> string" where
  "str_nat n = (if n < 10 then [digit_char n] else str_nat (n div 10) @ [digit_char (n mod 10)])"

declare str_nat.simps [simp del]

definition str :: "int \<Rightarrow> string" where
  "str i = (if i < 0 then CHR ''-'' # str_nat (nat (- i)) else str_nat (nat i))"

fun join :: "string \<Rightarrow> string list \<Rightarrow> string" where
  "join sep [] = []"
| "join sep [s] = s"
| "join sep (s # t # ss) = s @ sep @ join sep (t # ss)"

text \<open>
  \<open>send_update\<close> builds one line and writes it to the serial port; the model returns
  the line.
\<close>

definition send_update :: "int list \<Rightarrow> string" where
  "send_update vals =
     ''U,'' @ join '','' (map (\<lambda>v. str (clamp100 (of_int v))) vals) @ [CHR 0x0A]"

subsection \<open>Inbound lines\<close>

text \<open>
  A character is a code point below 256. \<open>str.strip()\<close> removes the white space of
  Python at both ends: in this range the code points 9 to 13, 28 to 32, 133 and 160.
\<close>

definition isspace :: "char \<Rightarrow> bool" where
  "isspace c = ((of_char c :: nat) \<in> set [9, 10, 11, 12, 13, 28, 29, 30, 31, 32, 133, 160])"

definition strip :: "string \<Rightarrow> string" where
  "strip s = rev (dropWhile isspace (rev (dropWhile isspace s)))"

definition startswith :: "string \<Rightarrow> string \<Rightarrow> bool" where
  "startswith s p = (take (length p) s = p)"

definition endswith :: "string \<Rightarrow> string \<Rightarrow> bool" where
  "endswith s p = (length p \<le> length s \<and> drop (length s - length p) s = p)"

subsection \<open>The sampling loop\<close>

record runtime_state =
  last_water_ts :: real
  standing :: bool
  stand_ms :: real
  total_ms :: real
  last_state_ts :: real
  temp_f :: real
  wcode :: int
  wind_mph :: real
  commute_min :: real
  last_weather_poll :: real
  last_traffic_poll :: real
  last_print :: real

record config =
  event_target_epoch :: real
  ORS_API_KEY :: string

definition WEATHER_POLL_SEC :: real where "WEATHER_POLL_SEC = 300"
definition TRAFFIC_POLL_SEC :: real where "TRAFFIC_POLL_SEC = 120"
definition PRINT_EVERY_SEC :: real where "PRINT_EVERY_SEC = 1"

text \<open>
  What one iteration of the loop reads from outside: the clock at the top of the iteration,
  the lines that \<open>readline\<close> returns while \<open>in_waiting\<close> is non-zero (decoded; each
  with the clock reading \<open>time.time()\<close> gives while that line is handled), the outcome of
  a weather fetch and of a commute fetch if one is made (\<open>Inl\<close>: the call raised an
  \<open>Exception\<close>), and the clock reading inside \<open>water_value\<close>.
\<close>

datatype fetch_error = FetchFailed

record tick_env =
  now :: real
  inbound :: "(string \<times> real) list"
  weather_reply :: "fetch_error + (real \<times> int \<times> real)"
  commute_reply :: "fetch_error + real"
  score_clock :: real

text \<open>
  What one iteration does to the outside: the line written to the port, the inbound lines
  it left unread, and whether each fetch was made.
\<close>

record tick_out =
  written :: string
  unread :: "(string \<times> real) list"
  weather_attempted :: bool
  commute_attempted :: bool

definition initial_state :: "real \<Rightarrow> real \<Rightarrow> runtime_state" where
  "initial_state t0 t1 =
     \<lparr>last_water_ts = t0, standing = False, stand_ms = 0, total_ms = 0, last_state_ts = t1,
      temp_f = 50, wcode = 3, wind_mph = 0, commute_min = 18,
      last_weather_poll = 0, last_traffic_poll = 0, last_print = 0\<rparr>"

definition accumulate :: "real \<Rightarrow> runtime_state \<Rightarrow> runtime_state" where
  "accumulate t st =
     (let dt = t - last_state_ts st;
          st1 = (if 0 < dt
                 then (let st2 = st\<lparr>total_ms := total_ms st + dt * 1000\<rparr>
                       in if standing st2 then st2\<lparr>stand_ms := stand_ms st2 + dt * 1000\<rparr>
                          else st2)
                 else st)
      in st1\<lparr>last_state_ts := t\<rparr>)"

text \<open>The body of the drain loop for one non-empty stripped line read at clock \<open>t\<close>.\<close>

definition handle_line :: "runtime_state \<Rightarrow> string \<Rightarrow> real \<Rightarrow> runtime_state" where
  "handle_line st line t =
     (if line = ''B,WATER'' then st\<lparr>last_water_ts := t\<rparr>
      else if startswith line ''S,'' then st\<lparr>standing := endswith line ''1''\<rparr>
      else st)"

text \<open>
  The drain loop. A line that is empty after \<open>strip\<close> ends the loop (\<open>break\<close>); the
  lines after it stay in the port's buffer.
\<close>

fun drain :: "runtime_state \<Rightarrow> (string \<times> real) list \<Rightarrow> runtime_state \<times> (string \<times> real) list" where
  "drain st [] = (st, [])"
| "drain st ((raw, t) # rest) =
     (let line = strip raw
      in if line = [] then (st, rest)
         else drain (handle_line st line t) rest)"

definition poll_weather :: "tick_env \<Rightarrow> runtime_state \<Rightarrow> runtime_state \<times> bool" where
  "poll_weather env st =
     (if WEATHER_POLL_SEC < now env - last_weather_poll st
      then (let st1 = (case weather_reply env of
                         Inr (t, c, w) \<Rightarrow> st\<lparr>temp_f := t, wcode := c, wind_mph := w\<rparr>
                       | Inl e \<Rightarrow> st)
            in (st1\<lparr>last_weather_poll := now env\<rparr>, True))
      else (st, False))"

definition poll_commute :: "config \<Rightarrow> tick_env \<Rightarrow> runtime_state \<Rightarrow> runtime_state \<times> bool" where
  "poll_commute cfg env st =
     (if TRAFFIC_POLL_SEC < now env - last_traffic_poll st
      then (let (st1, tried) =
                  (if ORS_API_KEY cfg \<noteq> []
                   then (case commute_reply env of
                           Inr m \<Rightarrow> (st\<lparr>commute_min := m\<rparr>, True)
                         | Inl e \<Rightarrow> (st, True))
                   else (st, False))
            in (st1\<lparr>last_traffic_poll := now env\<rparr>, tried))
      else (st, False))"

text \<open>The six gauge values, in the order of \<open>vals\<close>.\<close>

definition gauges :: "config \<Rightarrow> tick_env \<Rightarrow> runtime_state \<Rightarrow> py_error + int list" where
  "gauges cfg env st =
     (let kind = wmo_to_kind (wcode st) (wind_mph st);
          g_weather = weather_value kind;
          g_temp = temp_value (temp_f st)
      in case water_value (score_clock env) (last_water_ts st) of
           Inl e \<Rightarrow> Inl e
         | Inr g_water \<Rightarrow>
        (case stand_value (stand_ms st) (total_ms st) of
           Inl e \<Rightarrow> Inl e
         | Inr g_stand \<Rightarrow>
        (case event_value (event_target_epoch cfg - now env) of
           Inl e \<Rightarrow> Inl e
         | Inr g_event \<Rightarrow>
        (case commute_value (commute_min st) of
           Inl e \<Rightarrow> Inl e
         | Inr g_comm \<Rightarrow> Inr [g_weather, g_temp, g_water, g_stand, g_event, g_comm]))))"

definition report :: "tick_env \<Rightarrow> runtime_state \<Rightarrow> runtime_state" where
  "report env st =
     (if PRINT_EVERY_SEC \<le> now env - last_print st then st\<lparr>last_print := now env\<rparr> else st)"

text \<open>One iteration of \<open>while True\<close> in \<open>main\<close>, up to the final sleep.\<close>

definition tick :: "config \<Rightarrow> tick_env \<Rightarrow> runtime_state \<Rightarrow> py_error + runtime_state \<times> tick_out" where
  "tick cfg env st =
     (let st1 = accumulate (now env) st;
          (st2, left) = drain st1 (inbound env);
          (st3, wtried) = poll_weather env st2;
          (st4, ctried) = poll_commute cfg env st3
      in case gauges cfg env st4 of
           Inl e \<Rightarrow> Inl e
         | Inr vals \<Rightarrow>
             Inr (report env st4,
                  \<lparr>written = send_update vals, unread = left,
                   weather_attempted = wtried, commute_attempted = ctried\<rparr>))"

text \<open>
  A finite prefix of the loop: one iteration per environment, the lines written collected
  in order.
\<close>

fun run :: "config \<Rightarrow> tick_env list \<Rightarrow> runtime_state \<Rightarrow> py_error + runtime_state \<times> string list" where
  "run cfg [] st = Inr (st, [])"
| "run cfg (env # envs) st =
     (case tick cfg env st of
        Inl e \<Rightarrow> Inl e
      | Inr (st1, out) \<Rightarrow>
          (case run cfg envs st1 of
             Inl e \<Rightarrow> Inl e
           | Inr (st2, ls) \<Rightarrow> Inr (st2, written out # ls)))"

subsection \<open>Notions used to state the properties\<close>

text \<open>
  The runtime state of the end-to-end example: weather (72 F, code 1, wind 5), last
  hydration one hour before \<open>t\<close>, 500000 of 1000000 ms standing, 20 minutes of commute.
\<close>

definition example_state :: "real \<Rightarrow> runtime_state \<Rightarrow> runtime_state" where
  "example_state t st =
     st\<lparr>temp_f := 72, wcode := 1, wind_mph := 5, last_water_ts := t - 3600,
        stand_ms := 500000, total_ms := 1000000, commute_min := 20\<rparr>"

text \<open>
  An inbound entry is blank when its line is empty after \<open>strip\<close>; it is recognized when
  its stripped line is the hydration marker or a posture line.
\<close>

definition is_blank :: "string \<times> real \<Rightarrow> bool" where
  "is_blank l = (strip (fst l) = [])"

definition recognized :: "string \<times> real \<Rightarrow> bool" where
  "recognized l = (strip (fst l) = ''B,WATER'' \<or> startswith (strip (fst l)) ''S,'')"

definition handle_entry :: "runtime_state \<Rightarrow> string \<times> real \<Rightarrow> runtime_state" where
  "handle_entry st l = handle_line st (strip (fst l)) (snd l)"


subsection \<open>Properties of the value mapper\<close>

lemma py_round_of_int: "py_round (of_int n) = n"
  by (simp add: py_round_def)

lemma clamp100_range: "0 \<le> clamp100 x \<and> clamp100 x \<le> 100"
  by (simp add: clamp100_def)

text \<open>
  C9. \<open>clamp100\<close> is idempotent: applied to its own result (an integer, read as a
  number again) it returns that result; and its result always lies in [0,100].
\<close>

theorem clamp100_idempotent_bounded:
  "clamp100 (of_int (clamp100 x)) = clamp100 x \<and> 0 \<le> clamp100 x \<and> clamp100 x \<le> 100"
  by (simp add: clamp100_def py_round_of_int)

subsection \<open>Piecewise-linear interpolation at and beyond the anchors\<close>







lemma sort_key_nonempty: "points \<noteq> [] \<Longrightarrow> sort_key f points \<noteq> []"
  by (metis length_sort length_0_conv)












subsection \<open>Scores\<close>

lemma pl_total: "points \<noteq> [] \<Longrightarrow> \<exists>y. piecewise_linear x points = Inr y"
  by (simp add: piecewise_linear_def Let_def sort_key_nonempty split: option.split)

lemma water_value_range: "\<exists>v. water_value c l = Inr v \<and> 0 \<le> v \<and> v \<le> 100"
proof -
  obtain y where "piecewise_linear ((c - l) / 3600) [(0, 95), (1, 70), (2, 52), (3, 25), (4, 5)] = Inr y"
    using pl_total [of "[(0, 95), (1, 70), (2, 52), (3, 25), (4, 5)]"] by auto
  then show ?thesis by (simp add: water_value_def Let_def clamp100_range)
qed

lemma stand_value_range: "\<exists>v. stand_value s t = Inr v \<and> 0 \<le> v \<and> v \<le> 100"
proof -
  obtain y where "piecewise_linear (max 0 (min 40 (s / t * 100))) [(0, 100), (25, 50), (40, 10)] = Inr y"
    using pl_total [of "[(0, 100), (25, 50), (40, 10)]"] by auto
  then show ?thesis by (simp add: stand_value_def Let_def clamp100_range)
qed

lemma event_value_range: "\<exists>v. event_value s = Inr v \<and> 0 \<le> v \<and> v \<le> 100"
proof -
  obtain y where "piecewise_linear (s / 3600) [(0, 30), (6, 70), (8, 80), (10, 85), (12, 90)] = Inr y"
    using pl_total [of "[(0, 30), (6, 70), (8, 80), (10, 85), (12, 90)]"] by auto
  then show ?thesis by (simp add: event_value_def Let_def clamp100_range)
qed

lemma commute_value_range: "\<exists>v. commute_value m = Inr v \<and> 0 \<le> v \<and> v \<le> 100"
proof -
  obtain y where "piecewise_linear (max 12 (min 45 m)) [(12, 100), (18, 65), (45, 30)] = Inr y"
    using pl_total [of "[(12, 100), (18, 65), (45, 30)]"] by auto
  then show ?thesis by (simp add: commute_value_def Let_def clamp100_range)
qed



text \<open>
  C2. For every weather code and wind speed the classifier of the source returns what the
  specification's order gives: the base category by the priority thunder, snow, rain,
  clear, cloudy, otherwise cloudy; then the wind override; then the severe override. Codes
  96 and 99 give "severe" whatever the wind. Code 0 with wind 5 is "sunny" and scores 95;
  code 96 with wind 5 is "severe" and scores 10; code 3 with wind 25 is "wind" and scores 20.
\<close>

theorem wmo_to_kind_classification:
  "wmo_to_kind code wind = wmo_to_kind_spec code wind \<and>
   (code = 96 \<or> code = 99 \<longrightarrow> wmo_to_kind code wind = ''severe'') \<and>
   wmo_to_kind 0 5 = ''sunny'' \<and> weather_value (wmo_to_kind 0 5) = 95 \<and>
   wmo_to_kind 96 5 = ''severe'' \<and> weather_value (wmo_to_kind 96 5) = 10 \<and>
   wmo_to_kind 3 25 = ''wind'' \<and> weather_value (wmo_to_kind 3 25) = 20"
proof -
  have a: "wmo_to_kind code wind = wmo_to_kind_spec code wind"
    by (simp add: wmo_to_kind_def wmo_to_kind_spec_def base_kind_spec_def
        wind_override_spec_def severe_override_spec_def Let_def)
  have b: "code = 96 \<or> code = 99 \<longrightarrow> wmo_to_kind code wind = ''severe''"
    by (auto simp add: wmo_to_kind_def Let_def)
  have c: "wmo_to_kind 0 5 = ''sunny''" "wmo_to_kind 96 5 = ''severe''" "wmo_to_kind 3 25 = ''wind''"
    by (simp_all add: wmo_to_kind_def Let_def)
  have d: "weather_value ''sunny'' = 95" "weather_value ''severe'' = 10" "weather_value ''wind'' = 20"
    by (simp_all add: weather_value_def WEATHER_TICKS_def clamp100_def py_round_def)
  from a b c d show ?thesis by simp
qed

theorem wmo_to_kind_classification_witness:
  "wmo_to_kind 99 30 = ''severe'' \<and> wmo_to_kind 96 0 = ''severe''"
proof -
  have a: "(99 :: int) = 96 \<or> (99 :: int) = 99" by simp
  have b: "(96 :: int) = 96 \<or> (96 :: int) = 99" by simp
  have "wmo_to_kind 99 30 = ''severe''"
    using wmo_to_kind_classification [of 99 30] a by blast
  moreover have "wmo_to_kind 96 0 = ''severe''"
    using wmo_to_kind_classification [of 96 0] b by blast
  ultimately show ?thesis by blast
qed







text \<open>
  C4, as amended. For the state of the end-to-end example, with the event 7 hours after the
  clock reading \<open>t\<close>, the frame is weather 75, temperature 28, hydration 70, posture 10,
  event 75 (half way between 70 at 6 h and 80 at 8 h) and commute 62 (65 - 35 * 2/27
  on the segment from 18 to 45 minutes, rounded).
\<close>

theorem example_frame:
  "gauges \<lparr>event_target_epoch = t + 7 * 3600, ORS_API_KEY = key\<rparr>
      (env\<lparr>now := t, score_clock := t\<rparr>) (example_state t st) = Inr [75, 28, 70, 10, 75, 62]"
  by (simp add: gauges_def example_state_def wmo_to_kind_def weather_value_def WEATHER_TICKS_def
      temp_value_def water_value_def stand_value_def event_value_def commute_value_def
      piecewise_linear_def lerp_def clamp100_def py_round_def Let_def)

text \<open>
  At clock reading 0 the frame of the example has event 75 and commute 62, not 74 and 58.
\<close>

theorem example_frame_counterexample:
  "gauges \<lparr>event_target_epoch = 7 * 3600, ORS_API_KEY = ''key''\<rparr>
      \<lparr>now = 0, inbound = [], weather_reply = Inl FetchFailed,
       commute_reply = Inl FetchFailed, score_clock = 0\<rparr>
      (example_state 0 (initial_state 0 0)) = Inr [75, 28, 70, 10, 75, 62] \<and>
   gauges \<lparr>event_target_epoch = 7 * 3600, ORS_API_KEY = ''key''\<rparr>
      \<lparr>now = 0, inbound = [], weather_reply = Inl FetchFailed,
       commute_reply = Inl FetchFailed, score_clock = 0\<rparr>
      (example_state 0 (initial_state 0 0)) \<noteq> Inr [75, 28, 70, 10, 74, 58]"
  by (simp add: gauges_def example_state_def initial_state_def wmo_to_kind_def weather_value_def
      WEATHER_TICKS_def temp_value_def water_value_def stand_value_def event_value_def
      commute_value_def piecewise_linear_def lerp_def clamp100_def py_round_def Let_def)

subsection \<open>One iteration of the loop\<close>

lemma accumulate_fields:
  "total_ms (accumulate t st) = total_ms st + max 0 (t - last_state_ts st) * 1000"
  "stand_ms (accumulate t st) =
     stand_ms st + (if standing st then max 0 (t - last_state_ts st) * 1000 else 0)"
  "last_state_ts (accumulate t st) = t"
  "standing (accumulate t st) = standing st"
  "last_water_ts (accumulate t st) = last_water_ts st"
  "temp_f (accumulate t st) = temp_f st"
  "wcode (accumulate t st) = wcode st"
  "wind_mph (accumulate t st) = wind_mph st"
  "commute_min (accumulate t st) = commute_min st"
  "last_weather_poll (accumulate t st) = last_weather_poll st"
  "last_traffic_poll (accumulate t st) = last_traffic_poll st"
  by (simp_all add: accumulate_def Let_def)

lemma handle_line_fields:
  "total_ms (handle_line st line t) = total_ms st"
  "stand_ms (handle_line st line t) = stand_ms st"
  "last_state_ts (handle_line st line t) = last_state_ts st"
  "temp_f (handle_line st line t) = temp_f st"
  "wcode (handle_line st line t) = wcode st"
  "wind_mph (handle_line st line t) = wind_mph st"
  "commute_min (handle_line st line t) = commute_min st"
  "last_weather_poll (handle_line st line t) = last_weather_poll st"
  "last_traffic_poll (handle_line st line t) = last_traffic_poll st"
  by (simp_all add: handle_line_def)

lemma drain_fields:
  "total_ms (fst (drain st ls)) = total_ms st \<and>
   stand_ms (fst (drain st ls)) = stand_ms st \<and>
   last_state_ts (fst (drain st ls)) = last_state_ts st \<and>
   temp_f (fst (drain st ls)) = temp_f st \<and>
   wcode (fst (drain st ls)) = wcode st \<and>
   wind_mph (fst (drain st ls)) = wind_mph st \<and>
   commute_min (fst (drain st ls)) = commute_min st \<and>
   last_weather_poll (fst (drain st ls)) = last_weather_poll st \<and>
   last_traffic_poll (fst (drain st ls)) = last_traffic_poll st"
  by (induction st ls rule: drain.induct) (simp_all add: Let_def handle_line_fields)

lemma poll_weather_fields:
  "total_ms (fst (poll_weather env st)) = total_ms st"
  "stand_ms (fst (poll_weather env st)) = stand_ms st"
  "last_state_ts (fst (poll_weather env st)) = last_state_ts st"
  "standing (fst (poll_weather env st)) = standing st"
  "last_water_ts (fst (poll_weather env st)) = last_water_ts st"
  "commute_min (fst (poll_weather env st)) = commute_min st"
  "last_traffic_poll (fst (poll_weather env st)) = last_traffic_poll st"
  by (simp_all add: poll_weather_def Let_def split: sum.split prod.split)

lemma poll_commute_fields:
  "total_ms (fst (poll_commute cfg env st)) = total_ms st"
  "stand_ms (fst (poll_commute cfg env st)) = stand_ms st"
  "last_state_ts (fst (poll_commute cfg env st)) = last_state_ts st"
  "standing (fst (poll_commute cfg env st)) = standing st"
  "last_water_ts (fst (poll_commute cfg env st)) = last_water_ts st"
  "temp_f (fst (poll_commute cfg env st)) = temp_f st"
  "wcode (fst (poll_commute cfg env st)) = wcode st"
  "wind_mph (fst (poll_commute cfg env st)) = wind_mph st"
  "last_weather_poll (fst (poll_commute cfg env st)) = last_weather_poll st"
  by (simp_all add: poll_commute_def Let_def split: sum.split prod.split)

lemma report_fields:
  "total_ms (report env st) = total_ms st"
  "stand_ms (report env st) = stand_ms st"
  "last_state_ts (report env st) = last_state_ts st"
  "standing (report env st) = standing st"
  "last_water_ts (report env st) = last_water_ts st"
  "temp_f (report env st) = temp_f st"
  "wcode (report env st) = wcode st"
  "wind_mph (report env st) = wind_mph st"
  "commute_min (report env st) = commute_min st"
  "last_weather_poll (report env st) = last_weather_poll st"
  "last_traffic_poll (report env st) = last_traffic_poll st"
  by (simp_all add: report_def)

lemma gauges_total:
  "\<exists>h p e c. gauges cfg env st =
       Inr [weather_value (wmo_to_kind (wcode st) (wind_mph st)), temp_value (temp_f st), h, p, e, c] \<and>
     water_value (score_clock env) (last_water_ts st) = Inr h \<and>
     stand_value (stand_ms st) (total_ms st) = Inr p \<and>
     event_value (event_target_epoch cfg - now env) = Inr e \<and>
     commute_value (commute_min st) = Inr c \<and>
     0 \<le> h \<and> h \<le> 100 \<and> 0 \<le> p \<and> p \<le> 100 \<and> 0 \<le> e \<and> e \<le> 100 \<and> 0 \<le> c \<and> c \<le> 100"
proof -
  obtain h where h: "water_value (score_clock env) (last_water_ts st) = Inr h" "0 \<le> h" "h \<le> 100"
    using water_value_range by blast
  obtain p where p: "stand_value (stand_ms st) (total_ms st) = Inr p" "0 \<le> p" "p \<le> 100"
    using stand_value_range by blast
  obtain e where e: "event_value (event_target_epoch cfg - now env) = Inr e" "0 \<le> e" "e \<le> 100"
    using event_value_range by blast
  obtain c where c: "commute_value (commute_min st) = Inr c" "0 \<le> c" "c \<le> 100"
    using commute_value_range by blast
  from h p e c show ?thesis by (simp add: gauges_def Let_def)
qed

text \<open>The stages of one iteration, named.\<close>

lemma tick_stages:
  "\<exists>vals. gauges cfg env (fst (poll_commute cfg env (fst (poll_weather env
              (fst (drain (accumulate (now env) st) (inbound env))))))) = Inr vals \<and>
     tick cfg env st =
       Inr (report env (fst (poll_commute cfg env (fst (poll_weather env
              (fst (drain (accumulate (now env) st) (inbound env))))))),
            \<lparr>written = send_update vals,
             unread = snd (drain (accumulate (now env) st) (inbound env)),
             weather_attempted =
               snd (poll_weather env (fst (drain (accumulate (now env) st) (inbound env)))),
             commute_attempted =
               snd (poll_commute cfg env (fst (poll_weather env
                  (fst (drain (accumulate (now env) st) (inbound env))))))\<rparr>)"
proof -
  let ?st4 = "fst (poll_commute cfg env (fst (poll_weather env
              (fst (drain (accumulate (now env) st) (inbound env))))))"
  obtain vals where "gauges cfg env ?st4 = Inr vals" using gauges_total [of cfg env ?st4] by blast
  then show ?thesis by (simp add: tick_def Let_def case_prod_beta)
qed


subsection \<open>Decimal rendering\<close>







subsection \<open>The line written\<close>





subsection \<open>Polling and accumulation\<close>

lemma tick_total: "\<exists>st' out. tick cfg env st = Inr (st', out)"
  using tick_stages [of cfg env st] by blast

lemma tick_counters:
  assumes "tick cfg env st = Inr (st', out)"
  shows "total_ms st' = total_ms st + max 0 (now env - last_state_ts st) * 1000"
    and "stand_ms st' =
           stand_ms st + (if standing st then max 0 (now env - last_state_ts st) * 1000 else 0)"
    and "last_state_ts st' = now env"
  using assms tick_stages [of cfg env st]
  by (auto simp add: report_fields poll_commute_fields poll_weather_fields drain_fields
      accumulate_fields)





lemma tick_invariant:
  assumes tk: "tick cfg env st = Inr (st', out)"
  shows "total_ms st \<le> total_ms st'" and "stand_ms st \<le> stand_ms st'"
    and "0 \<le> stand_ms st \<and> stand_ms st \<le> total_ms st \<Longrightarrow>
           0 \<le> stand_ms st' \<and> stand_ms st' \<le> total_ms st'"
proof -
  define d where "d = max 0 (now env - last_state_ts st) * 1000"
  have nn: "0 \<le> d" by (simp add: d_def)
  have t: "total_ms st' = total_ms st + d"
    using tick_counters(1) [OF tk] by (simp add: d_def)
  have s: "stand_ms st' = stand_ms st + (if standing st then d else 0)"
    using tick_counters(2) [OF tk] by (simp add: d_def)
  show "total_ms st \<le> total_ms st'" using t nn by simp
  show "stand_ms st \<le> stand_ms st'" using s nn by simp
  show "0 \<le> stand_ms st' \<and> stand_ms st' \<le> total_ms st'"
    if "0 \<le> stand_ms st \<and> stand_ms st \<le> total_ms st"
    using that s t nn by (cases "standing st") simp_all
qed

lemma run_counters:
  "\<exists>st' ls. run cfg envs st = Inr (st', ls) \<and> length ls = length envs \<and>
     total_ms st \<le> total_ms st' \<and> stand_ms st \<le> stand_ms st' \<and>
     (0 \<le> stand_ms st \<and> stand_ms st \<le> total_ms st \<longrightarrow>
        0 \<le> stand_ms st' \<and> stand_ms st' \<le> total_ms st')"
proof (induction envs arbitrary: st)
  case Nil
  show ?case by simp
next
  case (Cons env envs)
  obtain st1 out where tk: "tick cfg env st = Inr (st1, out)" using tick_total by blast
  note c = tick_invariant [OF tk]
  from Cons [of st1] obtain st' ls where r: "run cfg envs st1 = Inr (st', ls)"
    "length ls = length envs"
    "total_ms st1 \<le> total_ms st'" "stand_ms st1 \<le> stand_ms st'"
    "0 \<le> stand_ms st1 \<and> stand_ms st1 \<le> total_ms st1 \<longrightarrow>
        0 \<le> stand_ms st' \<and> stand_ms st' \<le> total_ms st'" by blast
  have m: "total_ms st \<le> total_ms st1" "stand_ms st \<le> stand_ms st1"
    using c by simp_all
  have i: "0 \<le> stand_ms st1 \<and> stand_ms st1 \<le> total_ms st1"
    if "0 \<le> stand_ms st \<and> stand_ms st \<le> total_ms st"
    using that c(3) by simp
  have "run cfg (env # envs) st = Inr (st', written out # ls)" using tk r(1) by simp
  with r m i show ?case by fastforce
qed

text \<open>
  C7. The accumulation step adds \<open>max 0 dt * 1000\<close> to \<open>total_ms\<close>, where \<open>dt\<close> is
  the clock reading minus \<open>last_state_ts\<close> (so a non-positive delta adds nothing), and the
  same amount to \<open>stand_ms\<close> only when \<open>standing\<close> holds; nothing else in an iteration
  changes the two counters. Hence over one iteration and over any number of iterations
  both counters never decrease, and \<open>0 \<le> stand_ms \<le> total_ms\<close> is preserved; it holds
  in the initial state, where both are 0.
\<close>

theorem accumulation_invariant:
  "total_ms (accumulate t st) = total_ms st + max 0 (t - last_state_ts st) * 1000 \<and>
   stand_ms (accumulate t st) =
     stand_ms st + (if standing st then max 0 (t - last_state_ts st) * 1000 else 0) \<and>
   last_state_ts (accumulate t st) = t \<and>
   (\<exists>st' out. tick cfg env st = Inr (st', out) \<and>
      total_ms st' = total_ms (accumulate (now env) st) \<and>
      stand_ms st' = stand_ms (accumulate (now env) st) \<and>
      total_ms st \<le> total_ms st' \<and> stand_ms st \<le> stand_ms st' \<and>
      (0 \<le> stand_ms st \<and> stand_ms st \<le> total_ms st \<longrightarrow>
         0 \<le> stand_ms st' \<and> stand_ms st' \<le> total_ms st')) \<and>
   (\<exists>st' ls. run cfg envs st = Inr (st', ls) \<and> length ls = length envs \<and>
      total_ms st \<le> total_ms st' \<and> stand_ms st \<le> stand_ms st' \<and>
      (0 \<le> stand_ms st \<and> stand_ms st \<le> total_ms st \<longrightarrow>
         0 \<le> stand_ms st' \<and> stand_ms st' \<le> total_ms st')) \<and>
   stand_ms (initial_state t0 t1) = 0 \<and> total_ms (initial_state t0 t1) = 0"
proof -
  obtain st1 out where tk: "tick cfg env st = Inr (st1, out)" using tick_total by blast
  note c = tick_counters [OF tk]
  note i = tick_invariant [OF tk]
  have "total_ms st1 = total_ms (accumulate (now env) st) \<and>
      stand_ms st1 = stand_ms (accumulate (now env) st) \<and>
      total_ms st \<le> total_ms st1 \<and> stand_ms st \<le> stand_ms st1 \<and>
      (0 \<le> stand_ms st \<and> stand_ms st \<le> total_ms st \<longrightarrow>
         0 \<le> stand_ms st1 \<and> stand_ms st1 \<le> total_ms st1)"
    using c i by (simp add: accumulate_fields)
  with tk have one: "\<exists>st' out. tick cfg env st = Inr (st', out) \<and>
      total_ms st' = total_ms (accumulate (now env) st) \<and>
      stand_ms st' = stand_ms (accumulate (now env) st) \<and>
      total_ms st \<le> total_ms st' \<and> stand_ms st \<le> stand_ms st' \<and>
      (0 \<le> stand_ms st \<and> stand_ms st \<le> total_ms st \<longrightarrow>
         0 \<le> stand_ms st' \<and> stand_ms st' \<le> total_ms st')" by blast
  have init: "stand_ms (initial_state t0 t1) = 0 \<and> total_ms (initial_state t0 t1) = 0"
    by (simp add: initial_state_def)
  from one run_counters [of cfg envs st] init show ?thesis
    by (simp only: accumulate_fields simp_thms)
qed

theorem accumulation_invariant_witness:
  "\<exists>st' out.
     tick \<lparr>event_target_epoch = 26200, ORS_API_KEY = ''key''\<rparr>
       \<lparr>now = 12, inbound = [], weather_reply = Inl FetchFailed,
        commute_reply = Inl FetchFailed, score_clock = 12\<rparr>
       ((initial_state 0 0)\<lparr>standing := True, stand_ms := 100, total_ms := 200,
          last_state_ts := 10\<rparr>) = Inr (st', out) \<and>
     total_ms st' = 2200 \<and> stand_ms st' = 2100 \<and> 0 \<le> stand_ms st' \<and>
     stand_ms st' \<le> total_ms st'"
proof -
  let ?cfg = "\<lparr>event_target_epoch = 26200, ORS_API_KEY = ''key''\<rparr>"
  let ?env = "\<lparr>now = 12, inbound = [], weather_reply = Inl FetchFailed,
        commute_reply = Inl FetchFailed, score_clock = 12\<rparr>"
  let ?st = "(initial_state 0 0)\<lparr>standing := True, stand_ms := 100, total_ms := 200,
          last_state_ts := 10\<rparr>"
  have h: "0 \<le> stand_ms ?st \<and> stand_ms ?st \<le> total_ms ?st" by simp
  have a1: "total_ms (accumulate (now ?env) ?st) = 2200" by (simp add: accumulate_fields)
  have a2: "stand_ms (accumulate (now ?env) ?st) = 2100" by (simp add: accumulate_fields)
  note T = accumulation_invariant [of 12 ?st ?cfg ?env "[]" 0 0]
  from T [THEN conjunct2, THEN conjunct2, THEN conjunct2, THEN conjunct1]
  obtain st' out where tk: "tick ?cfg ?env ?st = Inr (st', out)"
    and t: "total_ms st' = total_ms (accumulate (now ?env) ?st)"
    and s: "stand_ms st' = stand_ms (accumulate (now ?env) ?st)"
    and inv: "0 \<le> stand_ms ?st \<and> stand_ms ?st \<le> total_ms ?st \<longrightarrow>
         0 \<le> stand_ms st' \<and> stand_ms st' \<le> total_ms st'"
    by (elim exE conjE) (rule that)
  from inv h have i: "0 \<le> stand_ms st' \<and> stand_ms st' \<le> total_ms st'" by (rule mp)
  have r1: "total_ms st' = 2200" using t a1 by (rule trans)
  have r2: "stand_ms st' = 2100" using s a2 by (rule trans)
  from tk r1 r2 i show ?thesis by (intro exI [of _ st'] exI [of _ out] conjI) (elim conjE, assumption)+
qed

subsection \<open>Draining the inbound lines\<close>

lemma endswith_single: "endswith s [c] = (s \<noteq> [] \<and> last s = c)"
  by (cases s rule: rev_cases) (simp_all add: endswith_def)

lemma dropWhile_keeps_suffix: "\<not> P a \<Longrightarrow> \<exists>ys. dropWhile P (xs @ a # zs) = ys @ a # zs"
proof (induction xs)
  case Nil
  then show ?case by simp
next
  case (Cons x xs)
  then obtain ys where "dropWhile P (xs @ a # zs) = ys @ a # zs" by blast
  then show ?case by (cases "P x") (auto intro: exI [of _ "x # xs"])
qed

lemma isspace_S: "\<not> isspace CHR ''S''" "\<not> isspace CHR '',''"
  by (simp_all add: isspace_def)

lemma strip_keeps_prefix:
  assumes "startswith raw ''S,''"
  shows "startswith (strip raw) ''S,''"
proof -
  from assms obtain rest where raw: "raw = CHR ''S'' # CHR '','' # rest"
    by (cases raw; cases "tl raw") (auto simp add: startswith_def)
  have a: "dropWhile isspace raw = raw" using raw isspace_S by simp
  have "rev raw = (rev rest @ [CHR '','']) @ CHR ''S'' # []" using raw by simp
  then obtain ys where "dropWhile isspace (rev raw) = ys @ CHR '','' # [CHR ''S'']"
    using dropWhile_keeps_suffix [of isspace "CHR '',''" "rev rest" "[CHR ''S'']"] isspace_S
    by auto
  then show ?thesis by (simp add: strip_def a startswith_def)
qed

lemma handle_entry_unrecognized: "\<not> recognized l \<Longrightarrow> handle_entry st l = st"
  by (simp add: handle_entry_def recognized_def handle_line_def)

lemma foldl_recognized:
  "foldl handle_entry st ls = foldl handle_entry st (filter recognized ls)"
  by (induction ls arbitrary: st) (simp_all add: handle_entry_unrecognized)

lemma drain_takeWhile:
  "drain st ls =
     (foldl handle_entry st (takeWhile (\<lambda>l. \<not> is_blank l) ls),
      drop 1 (dropWhile (\<lambda>l. \<not> is_blank l) ls))"
  by (induction st ls rule: drain.induct) (simp_all add: Let_def is_blank_def handle_entry_def)

lemma tick_drained:
  assumes "tick cfg env st = Inr (st', out)"
  shows "unread out = snd (drain (accumulate (now env) st) (inbound env))"
    and "last_water_ts st' = last_water_ts (fst (drain (accumulate (now env) st) (inbound env)))"
    and "standing st' = standing (fst (drain (accumulate (now env) st) (inbound env)))"
  using assms tick_stages [of cfg env st]
  by (auto simp add: report_fields poll_commute_fields poll_weather_fields)

text \<open>
  C6, as amended. The drain loop handles the inbound lines in order up to the first line
  that is blank (empty after \<open>strip\<close>); that line is consumed and ends the loop, and the
  lines after it are left unread. Among the lines before it, a line that is neither the
  hydration marker nor a posture line changes nothing: the state after the loop is the
  one obtained by handling the recognized lines alone, in order. When no inbound line is
  blank, all lines are read and every recognized line is handled. An iteration of the main
  loop takes \<open>last_water_ts\<close> and \<open>standing\<close> from that loop.
\<close>

theorem drain_until_blank:
  "drain st ls =
     (foldl handle_entry st (filter recognized (takeWhile (\<lambda>l. \<not> is_blank l) ls)),
      drop 1 (dropWhile (\<lambda>l. \<not> is_blank l) ls)) \<and>
   ((\<forall>l\<in>set ls. \<not> is_blank l) \<longrightarrow>
      drain st ls = (foldl handle_entry st (filter recognized ls), [])) \<and>
   (\<exists>st' out. tick cfg env st = Inr (st', out) \<and>
      unread out = drop 1 (dropWhile (\<lambda>l. \<not> is_blank l) (inbound env)) \<and>
      last_water_ts st' =
        last_water_ts (foldl handle_entry (accumulate (now env) st)
          (filter recognized (takeWhile (\<lambda>l. \<not> is_blank l) (inbound env)))) \<and>
      standing st' =
        standing (foldl handle_entry (accumulate (now env) st)
          (filter recognized (takeWhile (\<lambda>l. \<not> is_blank l) (inbound env)))))"
proof -
  have d: "drain s xs =
     (foldl handle_entry s (filter recognized (takeWhile (\<lambda>l. \<not> is_blank l) xs)),
      drop 1 (dropWhile (\<lambda>l. \<not> is_blank l) xs))" for s xs
    using drain_takeWhile [of s xs] foldl_recognized [of s "takeWhile (\<lambda>l. \<not> is_blank l) xs"]
    by simp
  have a: "drain st ls = (foldl handle_entry st (filter recognized ls), [])"
    if "\<forall>l\<in>set ls. \<not> is_blank l"
  proof -
    from that have "takeWhile (\<lambda>l. \<not> is_blank l) ls = ls" "dropWhile (\<lambda>l. \<not> is_blank l) ls = []"
      by simp_all
    with d [of st ls] show ?thesis by simp
  qed
  obtain st' out where tk: "tick cfg env st = Inr (st', out)" using tick_total by blast
  from tick_drained [OF tk] d [of "accumulate (now env) st" "inbound env"]
  have "unread out = drop 1 (dropWhile (\<lambda>l. \<not> is_blank l) (inbound env)) \<and>
      last_water_ts st' =
        last_water_ts (foldl handle_entry (accumulate (now env) st)
          (filter recognized (takeWhile (\<lambda>l. \<not> is_blank l) (inbound env)))) \<and>
      standing st' =
        standing (foldl handle_entry (accumulate (now env) st)
          (filter recognized (takeWhile (\<lambda>l. \<not> is_blank l) (inbound env))))"
    by simp
  with tk d [of st ls] a show ?thesis by blast
qed

theorem drain_until_blank_witness:
  "drain (initial_state 0 0)
     [(''junk'' @ [CHR 0x0A], 1), (''B,WATER'' @ [CHR 0x0A], 2), (''S,1'' @ [CHR 0x0A], 3)] =
   ((initial_state 0 0)\<lparr>last_water_ts := 2, standing := True\<rparr>, [])"
proof -
  let ?ls = "[(''junk'' @ [CHR 0x0A], 1), (''B,WATER'' @ [CHR 0x0A], 2), (''S,1'' @ [CHR 0x0A], 3)]
     :: (string \<times> real) list"
  have h: "\<forall>l\<in>set ?ls. \<not> is_blank l" by code_simp
  have e: "foldl handle_entry (initial_state 0 0) (filter recognized ?ls) =
      (initial_state 0 0)\<lparr>last_water_ts := 2, standing := True\<rparr>"
    by code_simp
  from drain_until_blank [of "initial_state 0 0" ?ls] h e show ?thesis by simp
qed

text \<open>
  A blank line before a hydration marker: the loop stops at the blank line, the marker is
  not handled in that iteration (\<open>last_water_ts\<close> stays 0) and stays unread. Without
  the blank line the marker is handled.
\<close>

theorem drain_stops_at_blank_counterexample:
  "drain (initial_state 0 0) [([CHR 0x0A], 5), (''B,WATER'' @ [CHR 0x0A], 6)] =
     (initial_state 0 0, [(''B,WATER'' @ [CHR 0x0A], 6)]) \<and>
   drain (initial_state 0 0) [(''B,WATER'' @ [CHR 0x0A], 6)] =
     ((initial_state 0 0)\<lparr>last_water_ts := 6\<rparr>, []) \<and>
   tick \<lparr>event_target_epoch = 26200, ORS_API_KEY = ''key''\<rparr>
      \<lparr>now = 1000, inbound = [([CHR 0x0A], 1000), (''B,WATER'' @ [CHR 0x0A], 1000)],
       weather_reply = Inl FetchFailed, commute_reply = Inl FetchFailed, score_clock = 1000\<rparr>
      (initial_state 0 0) =
    Inr (\<lparr>last_water_ts = 0, standing = False, stand_ms = 0, total_ms = 1000000,
          last_state_ts = 1000, temp_f = 50, wcode = 3, wind_mph = 0, commute_min = 18,
          last_weather_poll = 1000, last_traffic_poll = 1000, last_print = 1000\<rparr>,
         \<lparr>written = ''U,75,50,88,100,75,65'' @ [CHR 0x0A],
          unread = [(''B,WATER'' @ [CHR 0x0A], 1000)],
          weather_attempted = True, commute_attempted = True\<rparr>)"
  by code_simp

text \<open>
  C10. A stripped line that begins with "S," sets \<open>standing\<close> to whether its last
  character is '1': "S,1" gives true; "S,0", "S,x" and the bare "S," give false. A raw
  line that begins with "S," still begins with "S," after \<open>strip\<close>, and the drain loop
  sets \<open>standing\<close> from the last character of the stripped line.
\<close>

theorem posture_line_sets_standing:
  "(startswith line ''S,'' \<longrightarrow>
      handle_line st line t = st\<lparr>standing := (last line = CHR ''1'')\<rparr>) \<and>
   (startswith raw ''S,'' \<longrightarrow>
      startswith (strip raw) ''S,'' \<and>
      drain st [(raw, t)] = (st\<lparr>standing := (last (strip raw) = CHR ''1'')\<rparr>, [])) \<and>
   handle_line st ''S,'' t = st\<lparr>standing := False\<rparr> \<and>
   handle_line st ''S,0'' t = st\<lparr>standing := False\<rparr> \<and>
   handle_line st ''S,1'' t = st\<lparr>standing := True\<rparr> \<and>
   handle_line st ''S,x'' t = st\<lparr>standing := False\<rparr>"
proof -
  have h: "handle_line st line t = st\<lparr>standing := (last line = CHR ''1'')\<rparr>"
    if "startswith line ''S,''" for line
  proof -
    from that have "line \<noteq> []" "line \<noteq> ''B,WATER''" by (auto simp add: startswith_def)
    with that show ?thesis by (simp add: handle_line_def endswith_single)
  qed
  have r: "startswith (strip raw) ''S,'' \<and>
      drain st [(raw, t)] = (st\<lparr>standing := (last (strip raw) = CHR ''1'')\<rparr>, [])"
    if "startswith raw ''S,''"
  proof -
    from that have p: "startswith (strip raw) ''S,''" by (rule strip_keeps_prefix)
    then have "strip raw \<noteq> []" by (auto simp add: startswith_def)
    with p h [OF p] show ?thesis by (simp add: Let_def)
  qed
  have s: "startswith ''S,'' ''S,''" "startswith ''S,0'' ''S,''" "startswith ''S,1'' ''S,''"
    "startswith ''S,x'' ''S,''" by (simp_all add: startswith_def)
  from h [of line] r h [OF s(1)] h [OF s(2)] h [OF s(3)] h [OF s(4)] show ?thesis by simp
qed

theorem posture_line_sets_standing_witness:
  "handle_line (initial_state 0 0) ''S,1'' 5 = (initial_state 0 0)\<lparr>standing := True\<rparr> \<and>
   drain ((initial_state 0 0)\<lparr>standing := True\<rparr>) [(''S,x'' @ [CHR 0x0A], 5)] =
     ((initial_state 0 0)\<lparr>standing := False\<rparr>, [])"
proof -
  have a: "startswith ''S,1'' ''S,''" by (simp add: startswith_def)
  have b: "startswith (''S,x'' @ [CHR 0x0A]) ''S,''" by (simp add: startswith_def)
  have c: "strip (''S,x'' @ [CHR 0x0A]) = ''S,x''" by (simp add: strip_def isspace_def)
  from posture_line_sets_standing
    [of "''S,1''" "initial_state 0 0" 5 "''S,x'' @ [CHR 0x0A]"] a
  have "handle_line (initial_state 0 0) ''S,1'' 5 = (initial_state 0 0)\<lparr>standing := True\<rparr>"
    by simp
  moreover from posture_line_sets_standing
    [of "''S,1''" "(initial_state 0 0)\<lparr>standing := True\<rparr>" 5 "''S,x'' @ [CHR 0x0A]"] b c
  have "drain ((initial_state 0 0)\<lparr>standing := True\<rparr>) [(''S,x'' @ [CHR 0x0A], 5)] =
     ((initial_state 0 0)\<lparr>standing := False\<rparr>, [])"
    by simp
  ultimately show ?thesis by blast
qed

end
